theory Spec2Isabelle
  imports Main "HOL-Library.AList"
begin

section \<open>Values and documents\<close>

text \<open>
  The program keeps its data in a schemaless document store. A document is a Python
  dict from field names to values; it is modelled as an association list, read with
  \<open>map_of\<close> and written with \<open>AList.update\<close> (an existing key keeps its place, a new
  key goes to the end, as in a dict).
\<close>

datatype objectid = OID string

datatype date = Date nat nat nat

datatype datetime = Datetime date nat nat nat nat

datatype val =
    VNull
  | VBool bool
  | VInt int
  | VStr string
  | VOid objectid
  | VDate date
  | VDatetime datetime

type_synonym doc = "(string \<times> val) list"

text \<open>
  A database maps every collection name to its documents, in insertion order
  (\<open>db["student"]\<close> is \<open>d ''student''\<close>). The module global \<open>db\<close> is
  \<open>None\<close> when no store is configured.
\<close>

type_synonym database = "string \<Rightarrow> doc list"

text \<open>
  A request fails with an \<open>HTTPException\<close> of the handler (status code and detail),
  with a Python exception that nothing catches, here a \<open>KeyError\<close> on a missing dict
  key, or, before the handler runs, with the framework's \<open>RequestValidationError\<close>
  for a body that its model refuses (status 422).
\<close>

datatype failure = HTTPException nat string | KeyError string | RequestValidationError

subsection \<open>Identifiers\<close>

text \<open>
  \<open>ObjectId(s)\<close> of the store's driver, on a \<open>str\<close>: a text of 24 characters
  that \<open>bytes.fromhex\<close> takes; anything else raises. \<open>bytes.fromhex\<close> reads pairs of
  hexadecimal digits and skips ASCII white space between pairs, so the identifier has
  12 bytes, or fewer when the text holds blanks. An identifier is kept here as the
  lower-case hexadecimal text of its bytes, which is what \<open>str(oid)\<close> returns; two
  identifiers are equal when their bytes are.
\<close>

definition is_space :: "char \<Rightarrow> bool" where
  "is_space c = (c \<in> set [CHR '' '', CHR 0x09, CHR 0x0A, CHR 0x0B, CHR 0x0C, CHR 0x0D])"

definition hex_value :: "char \<Rightarrow> nat option" where
  "hex_value c =
     map_of (zip ''0123456789abcdefABCDEF''
                 [0, 1, 2, 3, 4, 5, 6, 7, 8, 9, 10, 11, 12, 13, 14, 15, 10, 11, 12, 13, 14, 15]) c"

fun fromhex :: "string \<Rightarrow> nat list option" where
  "fromhex [] = Some []"
| "fromhex [c] = (if is_space c then Some [] else None)"
| "fromhex (c # c' # cs) =
     (if is_space c then fromhex (c' # cs)
      else case hex_value c of
             None \<Rightarrow> None
           | Some hi \<Rightarrow>
               (case hex_value c' of
                  None \<Rightarrow> None
                | Some lo \<Rightarrow> map_option ((#) (16 * hi + lo)) (fromhex cs)))"

definition hexlify :: "nat list \<Rightarrow> string" where
  "hexlify bs = concat (map (\<lambda>b. [''0123456789abcdef'' ! (b div 16), ''0123456789abcdef'' ! (b mod 16)]) bs)"

definition ObjectId :: "string \<Rightarrow> objectid option" where
  "ObjectId s = (if length s = 24 then map_option (\<lambda>bs. OID (hexlify bs)) (fromhex s) else None)"

fun str_oid :: "objectid \<Rightarrow> string" where
  "str_oid (OID h) = h"

subsection \<open>Dates and their text\<close>

definition digit :: "nat \<Rightarrow> char" where
  "digit n = ''0123456789'' ! (n mod 10)"

definition zfill2 :: "nat \<Rightarrow> string" where
  "zfill2 n = [digit (n div 10), digit n]"

definition zfill4 :: "nat \<Rightarrow> string" where
  "zfill4 n = [digit (n div 1000), digit (n div 100), digit (n div 10), digit n]"

definition zfill6 :: "nat \<Rightarrow> string" where
  "zfill6 n = [digit (n div 100000), digit (n div 10000), digit (n div 1000),
               digit (n div 100), digit (n div 10), digit n]"

fun isoformat :: "date \<Rightarrow> string" where
  "isoformat (Date y m d) = zfill4 y @ ''-'' @ zfill2 m @ ''-'' @ zfill2 d"

definition time_text :: "nat \<Rightarrow> nat \<Rightarrow> nat \<Rightarrow> nat \<Rightarrow> string" where
  "time_text h mi s us =
     zfill2 h @ '':'' @ zfill2 mi @ '':'' @ zfill2 s @ (if us = 0 then [] else ''.'' @ zfill6 us)"

fun isoformat_datetime :: "datetime \<Rightarrow> string" where
  "isoformat_datetime (Datetime d h mi s us) = isoformat d @ ''T'' @ time_text h mi s us"

text \<open>\<open>datetime.combine(d, datetime.min.time())\<close> and \<open>.date()\<close>.\<close>

definition combine_min :: "date \<Rightarrow> datetime" where
  "combine_min d = Datetime d 0 0 0 0"

fun date_of :: "datetime \<Rightarrow> date" where
  "date_of (Datetime d h mi s us) = d"

subsection \<open>Python's \<open>str\<close> on a value\<close>

fun str_nat :: "nat \<Rightarrow> string" where
  "str_nat n = (if n < 10 then [digit n] else str_nat (n div 10) @ [digit n])"

declare str_nat.simps [simp del]

fun py_str :: "val \<Rightarrow> string" where
  "py_str VNull = ''None''"
| "py_str (VBool b) = (if b then ''True'' else ''False'')"
| "py_str (VInt i) = (if i < 0 then ''-'' @ str_nat (nat (- i)) else str_nat (nat i))"
| "py_str (VStr s) = s"
| "py_str (VOid i) = str_oid i"
| "py_str (VDate d) = isoformat d"
| "py_str (VDatetime (Datetime d h mi s us)) = isoformat d @ '' '' @ time_text h mi s us"

section \<open>The document store\<close>

text \<open>
  An equality filter \<open>{k: v, ...}\<close> selects the documents whose field \<open>k\<close> equals
  \<open>v\<close> for every pair; a \<open>null\<close> in the filter also selects a document without the
  field.
\<close>

definition field_matches :: "doc \<Rightarrow> string \<times> val \<Rightarrow> bool" where
  "field_matches d kv =
     (case map_of d (fst kv) of None \<Rightarrow> snd kv = VNull | Some w \<Rightarrow> w = snd kv)"

definition matches :: "doc \<Rightarrow> doc \<Rightarrow> bool" where
  "matches filt d = list_all (field_matches d) filt"

fun find_one :: "doc list \<Rightarrow> doc \<Rightarrow> doc option" where
  "find_one [] filt = None"
| "find_one (d # ds) filt = (if matches filt d then Some d else find_one ds filt)"

definition find_docs :: "doc list \<Rightarrow> doc \<Rightarrow> doc list" where
  "find_docs coll filt = filter (matches filt) coll"

text \<open>\<open>insert_one\<close> of a dict without \<open>_id\<close>: the driver generates the identifier.\<close>

definition insert_one :: "doc list \<Rightarrow> doc \<Rightarrow> objectid \<Rightarrow> doc list" where
  "insert_one coll d new_id = coll @ [(''_id'', VOid new_id) # d]"

text \<open>The update operator \<open>$set\<close>.\<close>

definition apply_set :: "doc \<Rightarrow> doc \<Rightarrow> doc" where
  "apply_set d sets = fold (\<lambda>kv acc. AList.update (fst kv) (snd kv) acc) sets d"

text \<open>\<open>update_one\<close> changes the first document the filter selects, if any.\<close>

fun update_one :: "doc list \<Rightarrow> doc \<Rightarrow> doc \<Rightarrow> doc list" where
  "update_one [] filt sets = []"
| "update_one (d # ds) filt sets =
     (if matches filt d then apply_set d sets # ds else d # update_one ds filt sets)"

text \<open>
  With \<open>upsert=True\<close>, when the filter selects nothing, a document is inserted: the
  filter's fields, then \<open>$set\<close> and \<open>$setOnInsert\<close> applied, under a generated
  identifier.
\<close>

definition update_one_upsert :: "doc list \<Rightarrow> doc \<Rightarrow> doc \<Rightarrow> doc \<Rightarrow> objectid \<Rightarrow> doc list" where
  "update_one_upsert coll filt sets on_insert new_id =
     (case find_one coll filt of
        Some _ \<Rightarrow> update_one coll filt sets
      | None \<Rightarrow> coll @ [apply_set (apply_set ((''_id'', VOid new_id) # filt) sets) on_insert])"

section \<open>Utilities (main.py)\<close>

fun serialize_item :: "string \<times> val \<Rightarrow> string \<times> val" where
  "serialize_item (k, v) =
     (if k = ''_id'' then (''id'', VStr (py_str v))
      else case v of
             VDatetime t \<Rightarrow> (k, VStr (isoformat_datetime t))
           | VDate t \<Rightarrow> (k, VStr (isoformat t))
           | _ \<Rightarrow> (k, v))"

definition serialize_doc :: "doc \<Rightarrow> doc" where
  "serialize_doc d =
     (if d = [] then d
      else fold (\<lambda>kv out. AList.update (fst (serialize_item kv)) (snd (serialize_item kv)) out) d [])"

text \<open>\<open>if not doc\<close>: a missing document and an empty dict are both falsy.\<close>

fun truthy_doc :: "doc option \<Rightarrow> bool" where
  "truthy_doc None = False"
| "truthy_doc (Some d) = (d \<noteq> [])"

text \<open>\<open>if s\<close> on an optional string: \<open>None\<close> and the empty string are falsy.\<close>

fun truthy_str :: "string option \<Rightarrow> bool" where
  "truthy_str None = False"
| "truthy_str (Some s) = (s \<noteq> [])"

text \<open>
  What the environment gives a call is a parameter of the function, in the order of
  use: the identifier the driver generates for an insert, and every reading of
  \<open>datetime.utcnow()\<close>.
\<close>

definition ensure_default_admin :: "database option \<Rightarrow> objectid \<Rightarrow> datetime \<Rightarrow> datetime \<Rightarrow> database option" where
  "ensure_default_admin db new_id now1 now2 =
     (case db of
        None \<Rightarrow> db
      | Some d \<Rightarrow>
          if \<not> truthy_doc (find_one (d ''adminuser'') [])
          then Some (d(''adminuser'' := insert_one (d ''adminuser'')
                 [(''name'', VStr ''Default Admin''),
                  (''email'', VStr ''admin@college.edu''),
                  (''password'', VStr ''admin123''),
                  (''role'', VStr ''admin''),
                  (''is_active'', VBool True),
                  (''created_at'', VDatetime now1),
                  (''updated_at'', VDatetime now2)] new_id))
          else db)"

section \<open>Request models\<close>

text \<open>
  The framework builds the model of a request from its body before it calls the
  handler, and answers a body that fails validation itself. A field of type
  \<open>EmailStr\<close> is validated by a library, which refuses a text that is no address and
  otherwise returns the address normalised; the models take that validation as the
  parameter \<open>validate_email\<close> (\<open>None\<close> when the text is refused). The record of a
  model holds the fields after validation.
\<close>

record LoginRequest =
  email :: string
  password :: string

definition LoginRequest_new ::
  "(string \<Rightarrow> string option) \<Rightarrow> string \<Rightarrow> string \<Rightarrow> LoginRequest option" where
  "LoginRequest_new validate_email em pw =
     (case validate_email em of
        None \<Rightarrow> None
      | Some e \<Rightarrow> Some \<lparr>email = e, password = pw\<rparr>)"

text \<open>\<open>Literal["pending", "accepted", "rejected"]\<close> of the Admission schema.\<close>

datatype admission_status = Pending | Accepted | Rejected

fun status_text :: "admission_status \<Rightarrow> string" where
  "status_text Pending = ''pending''"
| "status_text Accepted = ''accepted''"
| "status_text Rejected = ''rejected''"

record Admission =
  full_name :: string
  email :: string
  phone :: string
  address :: string
  program :: string
  dob :: date
  previous_education :: "string option"
  status :: admission_status

text \<open>
  Building the validated model from a request body: the email goes through the
  validation of \<open>EmailStr\<close>; \<open>previous_education\<close> and \<open>status\<close> may be left out,
  and \<open>status\<close> then takes its default, \<open>Field("pending")\<close>.
\<close>

definition Admission_new ::
  "(string \<Rightarrow> string option) \<Rightarrow> string \<Rightarrow> string \<Rightarrow> string \<Rightarrow> string \<Rightarrow> string \<Rightarrow> date \<Rightarrow>
   string option \<Rightarrow> admission_status option \<Rightarrow> Admission option" where
  "Admission_new validate_email fn em ph ad pr b pe st =
     (case validate_email em of
        None \<Rightarrow> None
      | Some e \<Rightarrow>
          Some \<lparr>full_name = fn, email = e, phone = ph, address = ad, program = pr, dob = b,
                previous_education = pe,
                status = (case st of None \<Rightarrow> Pending | Some s \<Rightarrow> s)\<rparr>)"

record AttendanceRequest =
  student_id :: string
  date :: date
  status :: string
  "note" :: "string option"

text \<open>\<open>status: str = "present"\<close> and \<open>note: Optional[str] = None\<close>.\<close>

definition AttendanceRequest_new ::
  "string \<Rightarrow> date \<Rightarrow> string option \<Rightarrow> string option \<Rightarrow> AttendanceRequest" where
  "AttendanceRequest_new sid d st n =
     \<lparr>student_id = sid, date = d,
      status = (case st of None \<Rightarrow> ''present'' | Some s \<Rightarrow> s), note = n\<rparr>"

fun opt_str :: "string option \<Rightarrow> val" where
  "opt_str None = VNull"
| "opt_str (Some s) = VStr s"

section \<open>Auth\<close>

record login_response =
  message :: string
  user :: doc

text \<open>\<open>d.get(k)\<close> and \<open>d.get(k, default)\<close>.\<close>

definition dict_get :: "doc \<Rightarrow> string \<Rightarrow> val \<Rightarrow> val" where
  "dict_get d k dflt = (case map_of d k of None \<Rightarrow> dflt | Some v \<Rightarrow> v)"

definition login :: "database option \<Rightarrow> LoginRequest \<Rightarrow> failure + login_response" where
  "login db req =
     (case db of
        None \<Rightarrow> Inl (HTTPException 503 ''Database not configured'')
      | Some d \<Rightarrow>
          (case find_one (d ''adminuser'')
                  [(''email'', VStr (LoginRequest.email req)),
                   (''password'', VStr (LoginRequest.password req)),
                   (''is_active'', VBool True)] of
             None \<Rightarrow> Inl (HTTPException 401 ''Invalid credentials'')
           | Some u \<Rightarrow>
               if u = [] then Inl (HTTPException 401 ''Invalid credentials'')
               else
                 (let user_s = serialize_doc u in
                  case map_of user_s ''id'' of
                    None \<Rightarrow> Inl (KeyError ''id'')
                  | Some i \<Rightarrow>
                      Inr \<lparr>message = ''Login successful'',
                           user = [(''id'', i),
                                   (''name'', dict_get user_s ''name'' VNull),
                                   (''email'', dict_get user_s ''email'' VNull),
                                   (''role'', dict_get user_s ''role'' (VStr ''admin''))]\<rparr>)))"

text \<open>
  The route \<open>POST /api/auth/login\<close>: the body is validated into a \<open>LoginRequest\<close>
  first, and \<open>login\<close> runs on the validated request only.
\<close>

definition login_route ::
  "(string \<Rightarrow> string option) \<Rightarrow> database option \<Rightarrow> string \<Rightarrow> string \<Rightarrow>
   failure + login_response" where
  "login_route validate_email db em pw =
     (case LoginRequest_new validate_email em pw of
        None \<Rightarrow> Inl RequestValidationError
      | Some req \<Rightarrow> login db req)"

section \<open>Admissions\<close>

text \<open>
  \<open>create_document\<close> and \<open>get_documents\<close> come from the module \<open>database\<close>; the
  handlers take them as parameters. A helper returns \<open>Inl e\<close> when it raises an
  exception whose text \<open>str(e)\<close> is \<open>e\<close>.
\<close>

definition submit_admission ::
  "(string \<Rightarrow> Admission \<Rightarrow> 's \<Rightarrow> (string + string) \<times> 's) \<Rightarrow> Admission \<Rightarrow> 's \<Rightarrow>
   (failure + doc) \<times> 's" where
  "submit_admission create_document admission s =
     (case create_document ''admission'' admission s of
        (Inl e, s') \<Rightarrow> (Inl (HTTPException 503 e), s')
      | (Inr new_id, s') \<Rightarrow>
          (Inr [(''message'', VStr ''Application submitted''), (''id'', VStr new_id)], s'))"

definition list_admissions ::
  "(string \<Rightarrow> doc option \<Rightarrow> string + doc list) \<Rightarrow> string option \<Rightarrow> failure + doc list" where
  "list_admissions get_documents st =
     (let filt = (if truthy_str st then [(''status'', opt_str st)] else []) in
      case get_documents ''admission'' (Some filt) of
        Inl e \<Rightarrow> Inl (HTTPException 503 e)
      | Inr docs \<Rightarrow> Inr (map serialize_doc docs))"

definition accept_admission ::
  "database option \<Rightarrow> string \<Rightarrow> objectid \<Rightarrow> datetime \<Rightarrow> datetime \<Rightarrow> datetime \<Rightarrow>
   (failure + doc) \<times> database option" where
  "accept_admission db admission_id new_id now1 now2 now3 =
     (case db of
        None \<Rightarrow> (Inl (HTTPException 503 ''Database not configured''), db)
      | Some d \<Rightarrow>
          (case ObjectId admission_id of
             None \<Rightarrow> (Inl (HTTPException 400 ''Invalid admission id''), db)
           | Some oid \<Rightarrow>
               (let admission = find_one (d ''admission'') [(''_id'', VOid oid)] in
                if \<not> truthy_doc admission
                then (Inl (HTTPException 404 ''Admission not found''), db)
                else
                  (case map_of (the admission) ''full_name'' of
                     None \<Rightarrow> (Inl (KeyError ''full_name''), db)
                   | Some fn \<Rightarrow>
                  (case map_of (the admission) ''email'' of
                     None \<Rightarrow> (Inl (KeyError ''email''), db)
                   | Some em \<Rightarrow>
                  (case map_of (the admission) ''program'' of
                     None \<Rightarrow> (Inl (KeyError ''program''), db)
                   | Some pr \<Rightarrow>
                       (let student_data =
                              [(''full_name'', fn),
                               (''email'', em),
                               (''program'', pr),
                               (''roll_no'', VNull),
                               (''year'', VInt 1),
                               (''is_active'', VBool True),
                               (''created_at'', VDatetime now1),
                               (''updated_at'', VDatetime now2)];
                            d1 = d(''student'' := insert_one (d ''student'') student_data new_id);
                            d2 = d1(''admission'' :=
                                   update_one (d1 ''admission'') [(''_id'', VOid oid)]
                                     [(''status'', VStr ''accepted''),
                                      (''updated_at'', VDatetime now3)])
                        in (Inr [(''message'', VStr ''Admission accepted''),
                                 (''student_id'', VStr (str_oid new_id))],
                            Some d2))))))))"

section \<open>Students\<close>


section \<open>Attendance\<close>

definition mark_attendance ::
  "database option \<Rightarrow> AttendanceRequest \<Rightarrow> objectid \<Rightarrow> datetime \<Rightarrow> datetime \<Rightarrow>
   (failure + doc) \<times> database option" where
  "mark_attendance db req new_id now1 now2 =
     (case db of
        None \<Rightarrow> (Inl (HTTPException 503 ''Database not configured''), db)
      | Some d \<Rightarrow>
          (case ObjectId (student_id req) of
             None \<Rightarrow> (Inl (HTTPException 400 ''Invalid student id''), db)
           | Some sid \<Rightarrow>
               if \<not> truthy_doc (find_one (d ''student'') [(''_id'', VOid sid)])
               then (Inl (HTTPException 404 ''Student not found''), db)
               else
                 (let dt = combine_min (date req) in
                  (Inr [(''message'', VStr ''Attendance recorded'')],
                   Some (d(''attendance'' :=
                     update_one_upsert (d ''attendance'')
                       [(''student_id'', VStr (str_oid sid)),
                        (''date'', VStr (isoformat (date_of dt)))]
                       [(''student_id'', VStr (str_oid sid)),
                        (''date'', VStr (isoformat (date_of dt))),
                        (''status'', VStr (AttendanceRequest.status req)),
                        (''note'', opt_str (note req)),
                        (''updated_at'', VDatetime now1)]
                       [(''created_at'', VDatetime now2)]
                       new_id))))))"

definition get_attendance ::
  "(string \<Rightarrow> doc option \<Rightarrow> string + doc list) \<Rightarrow> string option \<Rightarrow> string option \<Rightarrow>
   failure + doc list" where
  "get_attendance get_documents sid on_date =
     (let filt = [];
          filt = (if truthy_str sid then AList.update ''student_id'' (opt_str sid) filt
                  else filt);
          filt = (if truthy_str on_date then AList.update ''date'' (opt_str on_date) filt
                  else filt)
      in case get_documents ''attendance'' (Some filt) of
           Inl e \<Rightarrow> Inl (HTTPException 503 e)
         | Inr docs \<Rightarrow> Inr (map serialize_doc docs))"

section \<open>The helpers of the module \<open>database\<close>\<close>

text \<open>
  Modelled from the spec: the text of the failure of a helper of the module
  \<open>database\<close> when no store is configured. The spec has the operation fail as
  "store unavailable" and fixes no wording.
\<close>

definition store_unavailable :: string where
  "store_unavailable = ''Database not available''"

text \<open>
  Modelled from the spec: \<open>get_documents\<close> of the module \<open>database\<close>, which is not
  among the sources. The spec has the store retrieve the documents of a collection that
  match a filter exactly, all of them when there is none, and fail when the store is
  absent.
\<close>

definition get_documents :: "database option \<Rightarrow> string \<Rightarrow> doc option \<Rightarrow> string + doc list" where
  "get_documents db collection_name filter_dict =
     (case db of
        None \<Rightarrow> Inl store_unavailable
      | Some d \<Rightarrow>
          Inr (find_docs (d collection_name) (case filter_dict of None \<Rightarrow> [] | Some f \<Rightarrow> f)))"



text \<open>
  A helper that keeps what it is handed, in the order of the calls, and returns the
  identifier it is given.
\<close>

definition recording_create ::
  "string \<Rightarrow> string \<Rightarrow> Admission \<Rightarrow> (string \<times> Admission) list \<Rightarrow>
   (string + string) \<times> (string \<times> Admission) list" where
  "recording_create new_id collection_name data calls =
     (Inr new_id, calls @ [(collection_name, data)])"

text \<open>
  A validation of email addresses for the examples: it refuses a text without an at
  sign, and of any other it keeps the part up to the last at sign and returns the
  domain after it in lower case, which is what \<open>EmailStr\<close> does with the plain
  addresses the examples use. The theorems hold for every validation.
\<close>

definition ascii_lower :: "char \<Rightarrow> char" where
  "ascii_lower c =
     (case map_of (zip ''ABCDEFGHIJKLMNOPQRSTUVWXYZ'' ''abcdefghijklmnopqrstuvwxyz'') c of
        None \<Rightarrow> c
      | Some l \<Rightarrow> l)"

definition lower_domain :: "string \<Rightarrow> string option" where
  "lower_domain s =
     (if CHR ''@'' \<in> set s
      then Some (rev (dropWhile (\<lambda>c. c \<noteq> CHR ''@'') (rev s)) @
                 map ascii_lower (rev (takeWhile (\<lambda>c. c \<noteq> CHR ''@'') (rev s))))
      else None)"

section \<open>Properties of the stored data\<close>

text \<open>
  At most one attendance record for each pair of a student and a day: the filter that
  \<open>mark_attendance\<close> uses selects at most one document.
\<close>

definition attendance_unique :: "doc list \<Rightarrow> bool" where
  "attendance_unique coll =
     (\<forall>s dt. length (filter (matches [(''student_id'', VStr s), (''date'', VStr dt)]) coll) \<le> 1)"

text \<open>A sequence of calls of \<open>mark_attendance\<close>, each with what the environment gave it.\<close>

fun record_all ::
  "database option \<Rightarrow> (AttendanceRequest \<times> objectid \<times> datetime \<times> datetime) list \<Rightarrow>
   database option" where
  "record_all db [] = db"
| "record_all db ((req, new_id, now1, now2) # calls) =
     record_all (snd (mark_attendance db req new_id now1 now2)) calls"

text \<open>
  A document as the store returns it: a dict (its keys are distinct), under an
  identifier the driver generated in the field \<open>_id\<close>, and with no field of its own
  called \<open>id\<close>.
\<close>

definition stored_doc :: "doc \<Rightarrow> bool" where
  "stored_doc u =
     (distinct (map fst u) \<and>
      (case map_of u ''_id'' of Some (VOid i) \<Rightarrow> True | _ \<Rightarrow> False) \<and>
      map_of u ''id'' = None)"

definition collection_of :: "database option \<Rightarrow> string \<Rightarrow> doc list" where
  "collection_of db collection_name = (case db of None \<Rightarrow> [] | Some d \<Rightarrow> d collection_name)"

section \<open>A small college\<close>

definition morning :: datetime where
  "morning = Datetime (Date 2024 3 1) 9 0 0 0"

definition midday :: datetime where
  "midday = Datetime (Date 2024 3 1) 12 0 0 0"

definition evening :: datetime where
  "evening = Datetime (Date 2024 3 1) 17 30 0 0"

definition admin_id :: string where
  "admin_id = ''65e1f0a2b3c4d5e6f7a8b9c0''"

definition jane_id :: string where
  "jane_id = ''65e1f0a2b3c4d5e6f7a8b9c1''"

definition sam_id :: string where
  "sam_id = ''65e1f0a2b3c4d5e6f7a8b9c2''"

definition fresh_id :: string where
  "fresh_id = ''65e1f0a2b3c4d5e6f7a8b9c3''"

definition later_id :: string where
  "later_id = ''65e1f0a2b3c4d5e6f7a8b9c4''"

definition default_admin :: doc where
  "default_admin =
     [(''_id'', VOid (OID admin_id)),
      (''name'', VStr ''Default Admin''),
      (''email'', VStr ''admin@college.edu''),
      (''password'', VStr ''admin123''),
      (''role'', VStr ''admin''),
      (''is_active'', VBool True),
      (''created_at'', VDatetime morning),
      (''updated_at'', VDatetime morning)]"

definition jane_admission :: doc where
  "jane_admission =
     [(''_id'', VOid (OID jane_id)),
      (''full_name'', VStr ''Jane Doe''),
      (''email'', VStr ''jane@example.com''),
      (''phone'', VStr ''555-0100''),
      (''address'', VStr ''1 Main St''),
      (''program'', VStr ''Engineering''),
      (''dob'', VDate (Date 2005 6 15)),
      (''previous_education'', VNull),
      (''status'', VStr ''pending''),
      (''created_at'', VDatetime morning),
      (''updated_at'', VDatetime morning)]"

definition sam_student :: doc where
  "sam_student =
     [(''_id'', VOid (OID sam_id)),
      (''full_name'', VStr ''Sam Roe''),
      (''email'', VStr ''sam@example.com''),
      (''program'', VStr ''Psychology''),
      (''roll_no'', VNull),
      (''year'', VInt 1),
      (''is_active'', VBool True),
      (''created_at'', VDatetime morning),
      (''updated_at'', VDatetime morning)]"

definition empty_db :: database where
  "empty_db collection_name = []"

definition college_db :: database where
  "college_db =
     empty_db(''adminuser'' := [default_admin],
              ''admission'' := [jane_admission],
              ''student'' := [sam_student])"

definition jane_input :: "admission_status option \<Rightarrow> Admission" where
  "jane_input st =
     \<lparr>full_name = ''Jane Doe'', email = ''jane@example.com'', phone = ''555-0100'',
      address = ''1 Main St'', program = ''Engineering'', dob = Date 2005 6 15,
      previous_education = None,
      status = (case st of None \<Rightarrow> Pending | Some s \<Rightarrow> s)\<rparr>"


section \<open>Facts about the store\<close>

lemma map_of_apply_set: "map_of (apply_set d sets) = map_of d ++ map_of (rev sets)"
  unfolding apply_set_def
  by (induction sets arbitrary: d)
    (simp_all add: update_conv' fun_eq_iff map_add_def split: option.splits)

lemma find_one_None: "(find_one c f = None) = (\<forall>x\<in>set c. \<not> matches f x)"
  by (induction c) auto

lemma find_one_Some: "find_one c f = Some x \<Longrightarrow> x \<in> set c \<and> matches f x"
  by (induction c) (auto split: if_splits)

lemma find_one_split:
  "find_one c f = Some x \<Longrightarrow>
   \<exists>pre post. c = pre @ x # post \<and> (\<forall>y\<in>set pre. \<not> matches f y) \<and> matches f x \<and>
     (\<forall>s. update_one c f s = pre @ apply_set x s # post)"
proof (induction c)
  case Nil
  then show ?case by simp
next
  case (Cons d ds)
  show ?case
  proof (cases "matches f d")
    case True
    with Cons.prems have "x = d" by simp
    with True show ?thesis by (intro exI [of _ "[]"] exI [of _ ds]) simp
  next
    case False
    with Cons.prems have "find_one ds f = Some x" by simp
    from Cons.IH [OF this] obtain pre post where
      "ds = pre @ x # post" "\<forall>y\<in>set pre. \<not> matches f y" "matches f x"
      "\<forall>s. update_one ds f s = pre @ apply_set x s # post" by blast
    with False show ?thesis
      by (intro exI [of _ "d # pre"] exI [of _ post]) simp
  qed
qed

lemma find_one_first:
  "\<forall>y\<in>set pre. \<not> matches f y \<Longrightarrow> matches f x \<Longrightarrow> find_one (pre @ x # post) f = Some x"
  by (induction pre) auto

lemma matches_id: "matches [(''_id'', VOid oid)] a = (map_of a ''_id'' = Some (VOid oid))"
  by (auto simp: matches_def field_matches_def split: option.splits)

lemma matches_key:
  "matches [(''student_id'', VStr s), (''date'', VStr dt)] x =
     (map_of x ''student_id'' = Some (VStr s) \<and> map_of x ''date'' = Some (VStr dt))"
  by (auto simp: matches_def field_matches_def split: option.splits)

lemma matches_credentials:
  "matches [(''email'', VStr e), (''password'', VStr p), (''is_active'', VBool True)] u =
     (map_of u ''email'' = Some (VStr e) \<and> map_of u ''password'' = Some (VStr p) \<and>
      map_of u ''is_active'' = Some (VBool True))"
  by (auto simp: matches_def field_matches_def split: option.splits)

lemma ObjectId_jane: "ObjectId jane_id = Some (OID jane_id)"
  by (simp add: jane_id_def) code_simp

lemma ObjectId_sam: "ObjectId sam_id = Some (OID sam_id)"
  by (simp add: sam_id_def) code_simp

lemma find_jane:
  "find_one (college_db ''admission'') [(''_id'', VOid (OID jane_id))] = Some jane_admission"
  by (simp add: college_db_def jane_admission_def matches_id)

lemma find_sam:
  "find_one (college_db ''student'') [(''_id'', VOid (OID sam_id))] = Some sam_student"
  by (simp add: college_db_def sam_student_def matches_id)

section \<open>Accepting an admission\<close>

lemma accept_admission_run:
  assumes oid: "ObjectId admission_id = Some oid"
    and found: "find_one (d ''admission'') [(''_id'', VOid oid)] = Some a"
    and fields: "map_of a ''full_name'' = Some fn" "map_of a ''email'' = Some em"
      "map_of a ''program'' = Some pr"
  shows "\<exists>pre post a'.
     d ''admission'' = pre @ a # post \<and>
     (\<forall>x\<in>set pre. map_of x ''_id'' \<noteq> Some (VOid oid)) \<and>
     map_of a' = (map_of a)(''status'' \<mapsto> VStr ''accepted'', ''updated_at'' \<mapsto> VDatetime now3) \<and>
     accept_admission (Some d) admission_id new_id now1 now2 now3 =
       (Inr [(''message'', VStr ''Admission accepted''), (''student_id'', VStr (str_oid new_id))],
        Some (d(''student'' := d ''student'' @
                 [[(''_id'', VOid new_id), (''full_name'', fn), (''email'', em), (''program'', pr),
                   (''roll_no'', VNull), (''year'', VInt 1), (''is_active'', VBool True),
                   (''created_at'', VDatetime now1), (''updated_at'', VDatetime now2)]],
               ''admission'' := pre @ a' # post)))"
proof -
  from find_one_split [OF found] obtain pre post where
    split: "d ''admission'' = pre @ a # post"
    and pre: "\<forall>y\<in>set pre. \<not> matches [(''_id'', VOid oid)] y"
    and hit: "matches [(''_id'', VOid oid)] a"
    and upd: "\<forall>s. update_one (d ''admission'') [(''_id'', VOid oid)] s = pre @ apply_set a s # post"
    by blast
  let ?sets = "[(''status'', VStr ''accepted''), (''updated_at'', VDatetime now3)]"
  from hit have nonempty: "a \<noteq> []" by (auto simp: matches_id)
  have a': "map_of (apply_set a ?sets) =
      (map_of a)(''status'' \<mapsto> VStr ''accepted'', ''updated_at'' \<mapsto> VDatetime now3)"
    by (simp add: map_of_apply_set fun_eq_iff map_add_def)
  have run: "accept_admission (Some d) admission_id new_id now1 now2 now3 =
       (Inr [(''message'', VStr ''Admission accepted''), (''student_id'', VStr (str_oid new_id))],
        Some (d(''student'' := d ''student'' @
                 [[(''_id'', VOid new_id), (''full_name'', fn), (''email'', em), (''program'', pr),
                   (''roll_no'', VNull), (''year'', VInt 1), (''is_active'', VBool True),
                   (''created_at'', VDatetime now1), (''updated_at'', VDatetime now2)]],
               ''admission'' := pre @ apply_set a ?sets # post)))"
    using oid found fields nonempty upd
    by (simp add: accept_admission_def insert_one_def Let_def)
  from split pre a' run show ?thesis
    unfolding matches_id by blast
qed

text \<open>
  C1. When the store is configured and the admission id names a stored Admission (a
  document of the admission collection with the fields \<open>full_name\<close>, \<open>email\<close> and
  \<open>program\<close>), \<open>accept_admission\<close> appends exactly one document to the student
  collection: the Admission's \<open>full_name\<close>, \<open>email\<close> and \<open>program\<close>, \<open>roll_no\<close>
  null, \<open>year\<close> 1, \<open>is_active\<close> true. It then sets \<open>status\<close> to "accepted" and
  \<open>updated_at\<close> to the current time in that Admission, the first document under the
  identifier, and changes nothing else. It returns the new student's identifier.
\<close>

theorem accept_admission_creates_student:
  assumes "ObjectId admission_id = Some oid"
    and "find_one (d ''admission'') [(''_id'', VOid oid)] = Some a"
    and "map_of a ''full_name'' = Some fn"
    and "map_of a ''email'' = Some em"
    and "map_of a ''program'' = Some pr"
  shows "\<exists>pre post a'.
     d ''admission'' = pre @ a # post \<and>
     (\<forall>x\<in>set pre. map_of x ''_id'' \<noteq> Some (VOid oid)) \<and>
     map_of a' = (map_of a)(''status'' \<mapsto> VStr ''accepted'', ''updated_at'' \<mapsto> VDatetime now3) \<and>
     accept_admission (Some d) admission_id new_id now1 now2 now3 =
       (Inr [(''message'', VStr ''Admission accepted''), (''student_id'', VStr (str_oid new_id))],
        Some (d(''student'' := d ''student'' @
                 [[(''_id'', VOid new_id), (''full_name'', fn), (''email'', em), (''program'', pr),
                   (''roll_no'', VNull), (''year'', VInt 1), (''is_active'', VBool True),
                   (''created_at'', VDatetime now1), (''updated_at'', VDatetime now2)]],
               ''admission'' := pre @ a' # post)))"
  using assms by (rule accept_admission_run [where d = d])

theorem accept_admission_creates_student_witness:
  "ObjectId jane_id = Some (OID jane_id) \<and>
   find_one (college_db ''admission'') [(''_id'', VOid (OID jane_id))] = Some jane_admission \<and>
   map_of jane_admission ''full_name'' = Some (VStr ''Jane Doe'') \<and>
   map_of jane_admission ''email'' = Some (VStr ''jane@example.com'') \<and>
   map_of jane_admission ''program'' = Some (VStr ''Engineering'') \<and>
   fst (accept_admission (Some college_db) jane_id (OID fresh_id) morning midday evening) =
     Inr [(''message'', VStr ''Admission accepted''), (''student_id'', VStr fresh_id)] \<and>
   collection_of (snd (accept_admission (Some college_db) jane_id (OID fresh_id) morning midday
       evening)) ''student'' =
     [sam_student,
      [(''_id'', VOid (OID fresh_id)), (''full_name'', VStr ''Jane Doe''),
       (''email'', VStr ''jane@example.com''), (''program'', VStr ''Engineering''),
       (''roll_no'', VNull), (''year'', VInt 1), (''is_active'', VBool True),
       (''created_at'', VDatetime morning), (''updated_at'', VDatetime midday)]]"
proof -
  have f: "map_of jane_admission ''full_name'' = Some (VStr ''Jane Doe'')"
    "map_of jane_admission ''email'' = Some (VStr ''jane@example.com'')"
    "map_of jane_admission ''program'' = Some (VStr ''Engineering'')"
    by (simp_all add: jane_admission_def)
  from accept_admission_creates_student
    [where d = college_db and new_id = "OID fresh_id", OF ObjectId_jane find_jane f]
  obtain pre post a' where
    "accept_admission (Some college_db) jane_id (OID fresh_id) morning midday evening =
       (Inr [(''message'', VStr ''Admission accepted''),
             (''student_id'', VStr (str_oid (OID fresh_id)))],
        Some (college_db(''student'' := college_db ''student'' @
                 [[(''_id'', VOid (OID fresh_id)), (''full_name'', VStr ''Jane Doe''),
                   (''email'', VStr ''jane@example.com''), (''program'', VStr ''Engineering''),
                   (''roll_no'', VNull), (''year'', VInt 1), (''is_active'', VBool True),
                   (''created_at'', VDatetime morning), (''updated_at'', VDatetime midday)]],
               ''admission'' := pre @ a' # post)))"
    by blast
  then show ?thesis
    using ObjectId_jane find_jane f by (simp add: collection_of_def college_db_def)
qed



text \<open>
  C5. Nothing guards a second acceptance. After \<open>accept_admission\<close> has succeeded on
  an admission id, the Admission found under that id has the status "accepted";
  \<open>accept_admission\<close> on the same id succeeds again, and the student collection then
  holds two new documents copied from the same Admission.
\<close>

theorem accept_admission_twice:
  assumes oid: "ObjectId admission_id = Some oid"
    and found: "find_one (d ''admission'') [(''_id'', VOid oid)] = Some a"
    and fields: "map_of a ''full_name'' = Some fn" "map_of a ''email'' = Some em"
      "map_of a ''program'' = Some pr"
  shows "\<exists>d1 a1 d2.
     accept_admission (Some d) admission_id id1 t1 t2 t3 =
       (Inr [(''message'', VStr ''Admission accepted''), (''student_id'', VStr (str_oid id1))],
        Some d1) \<and>
     find_one (d1 ''admission'') [(''_id'', VOid oid)] = Some a1 \<and>
     map_of a1 ''status'' = Some (VStr ''accepted'') \<and>
     accept_admission (Some d1) admission_id id2 t4 t5 t6 =
       (Inr [(''message'', VStr ''Admission accepted''), (''student_id'', VStr (str_oid id2))],
        Some d2) \<and>
     d2 ''student'' = d ''student'' @
       [[(''_id'', VOid id1), (''full_name'', fn), (''email'', em), (''program'', pr),
         (''roll_no'', VNull), (''year'', VInt 1), (''is_active'', VBool True),
         (''created_at'', VDatetime t1), (''updated_at'', VDatetime t2)],
        [(''_id'', VOid id2), (''full_name'', fn), (''email'', em), (''program'', pr),
         (''roll_no'', VNull), (''year'', VInt 1), (''is_active'', VBool True),
         (''created_at'', VDatetime t4), (''updated_at'', VDatetime t5)]]"
proof -
  let ?s1 = "[(''_id'', VOid id1), (''full_name'', fn), (''email'', em), (''program'', pr),
         (''roll_no'', VNull), (''year'', VInt 1), (''is_active'', VBool True),
         (''created_at'', VDatetime t1), (''updated_at'', VDatetime t2)]"
  from accept_admission_run [where d = d, OF oid found fields, of t3 id1 t1 t2] obtain pre post a1 where
    pre: "\<forall>x\<in>set pre. map_of x ''_id'' \<noteq> Some (VOid oid)"
    and a1: "map_of a1 = (map_of a)(''status'' \<mapsto> VStr ''accepted'', ''updated_at'' \<mapsto> VDatetime t3)"
    and run1: "accept_admission (Some d) admission_id id1 t1 t2 t3 =
       (Inr [(''message'', VStr ''Admission accepted''), (''student_id'', VStr (str_oid id1))],
        Some (d(''student'' := d ''student'' @ [?s1], ''admission'' := pre @ a1 # post)))"
    by blast
  let ?d1 = "d(''student'' := d ''student'' @ [?s1], ''admission'' := pre @ a1 # post)"
  from find_one_Some [OF found] have "map_of a ''_id'' = Some (VOid oid)"
    by (simp add: matches_id)
  with a1 have hit1: "matches [(''_id'', VOid oid)] a1" by (simp add: matches_id)
  from pre hit1 have found1: "find_one (?d1 ''admission'') [(''_id'', VOid oid)] = Some a1"
    by (simp add: find_one_first matches_id)
  from a1 fields have fields1: "map_of a1 ''full_name'' = Some fn" "map_of a1 ''email'' = Some em"
      "map_of a1 ''program'' = Some pr" and st1: "map_of a1 ''status'' = Some (VStr ''accepted'')"
    by simp_all
  from accept_admission_run [where d = ?d1, OF oid found1 fields1, of t6 id2 t4 t5]
  obtain pre2 post2 a2 where
    run2: "accept_admission (Some ?d1) admission_id id2 t4 t5 t6 =
       (Inr [(''message'', VStr ''Admission accepted''), (''student_id'', VStr (str_oid id2))],
        Some (?d1(''student'' := ?d1 ''student'' @
                 [[(''_id'', VOid id2), (''full_name'', fn), (''email'', em), (''program'', pr),
                   (''roll_no'', VNull), (''year'', VInt 1), (''is_active'', VBool True),
                   (''created_at'', VDatetime t4), (''updated_at'', VDatetime t5)]],
               ''admission'' := pre2 @ a2 # post2)))"
    by blast
  show ?thesis
    apply (rule exI [of _ ?d1], rule exI [of _ a1])
    apply (rule exI)
    apply (intro conjI)
        apply (rule run1)
       apply (rule found1)
      apply (rule st1)
     apply (rule run2)
    apply simp
    done
qed

theorem accept_admission_twice_witness:
  "ObjectId jane_id = Some (OID jane_id) \<and>
   find_one (college_db ''admission'') [(''_id'', VOid (OID jane_id))] = Some jane_admission \<and>
   collection_of
     (snd (accept_admission
        (snd (accept_admission (Some college_db) jane_id (OID fresh_id) morning morning midday))
        jane_id (OID later_id) evening evening evening)) ''student'' =
     [sam_student,
      [(''_id'', VOid (OID fresh_id)), (''full_name'', VStr ''Jane Doe''),
       (''email'', VStr ''jane@example.com''), (''program'', VStr ''Engineering''),
       (''roll_no'', VNull), (''year'', VInt 1), (''is_active'', VBool True),
       (''created_at'', VDatetime morning), (''updated_at'', VDatetime morning)],
      [(''_id'', VOid (OID later_id)), (''full_name'', VStr ''Jane Doe''),
       (''email'', VStr ''jane@example.com''), (''program'', VStr ''Engineering''),
       (''roll_no'', VNull), (''year'', VInt 1), (''is_active'', VBool True),
       (''created_at'', VDatetime evening), (''updated_at'', VDatetime evening)]]"
proof -
  have f: "map_of jane_admission ''full_name'' = Some (VStr ''Jane Doe'')"
    "map_of jane_admission ''email'' = Some (VStr ''jane@example.com'')"
    "map_of jane_admission ''program'' = Some (VStr ''Engineering'')"
    by (simp_all add: jane_admission_def)
  from accept_admission_twice
    [where d = college_db and ?id1.0 = "OID fresh_id" and ?id2.0 = "OID later_id"
      and ?t1.0 = morning and ?t2.0 = morning and ?t3.0 = midday
      and ?t4.0 = evening and ?t5.0 = evening and ?t6.0 = evening,
      OF ObjectId_jane find_jane f]
  obtain d1 d2 where
    "accept_admission (Some college_db) jane_id (OID fresh_id) morning morning midday =
       (Inr [(''message'', VStr ''Admission accepted''),
             (''student_id'', VStr (str_oid (OID fresh_id)))], Some d1)"
    "accept_admission (Some d1) jane_id (OID later_id) evening evening evening =
       (Inr [(''message'', VStr ''Admission accepted''),
             (''student_id'', VStr (str_oid (OID later_id)))], Some d2)"
    "d2 ''student'' = college_db ''student'' @
       [[(''_id'', VOid (OID fresh_id)), (''full_name'', VStr ''Jane Doe''),
         (''email'', VStr ''jane@example.com''), (''program'', VStr ''Engineering''),
         (''roll_no'', VNull), (''year'', VInt 1), (''is_active'', VBool True),
         (''created_at'', VDatetime morning), (''updated_at'', VDatetime morning)],
        [(''_id'', VOid (OID later_id)), (''full_name'', VStr ''Jane Doe''),
         (''email'', VStr ''jane@example.com''), (''program'', VStr ''Engineering''),
         (''roll_no'', VNull), (''year'', VInt 1), (''is_active'', VBool True),
         (''created_at'', VDatetime evening), (''updated_at'', VDatetime evening)]]"
    by blast
  then show ?thesis
    using ObjectId_jane find_jane by (simp add: collection_of_def college_db_def)
qed

section \<open>Recording attendance\<close>


lemma upsert_preserves_unique:
  assumes inv: "attendance_unique c"
  shows "attendance_unique
      (update_one_upsert c [(''student_id'', VStr s), (''date'', VStr dt)]
         [(''student_id'', VStr s), (''date'', VStr dt), (''status'', st), (''note'', n),
          (''updated_at'', u)] [(''created_at'', cr)] nid)"
proof (cases "find_one c [(''student_id'', VStr s), (''date'', VStr dt)]")
  case None
  let ?key = "[(''student_id'', VStr s), (''date'', VStr dt)]"
  let ?new = "apply_set (apply_set ((''_id'', VOid nid) # ?key)
             [(''student_id'', VStr s), (''date'', VStr dt), (''status'', st), (''note'', n),
              (''updated_at'', u)]) [(''created_at'', cr)]"
  from None have empty: "filter (matches ?key) c = []"
    by (simp add: find_one_None filter_empty_conv)
  have new: "\<And>s' dt'. matches [(''student_id'', VStr s'), (''date'', VStr dt')] ?new =
      (s' = s \<and> dt' = dt)"
    by (auto simp: matches_key map_of_apply_set map_add_def)
  show ?thesis
    unfolding attendance_unique_def
  proof (intro allI)
    fix s' dt'
    show "length (filter (matches [(''student_id'', VStr s'), (''date'', VStr dt')])
        (update_one_upsert c ?key
         [(''student_id'', VStr s), (''date'', VStr dt), (''status'', st), (''note'', n),
          (''updated_at'', u)] [(''created_at'', cr)] nid)) \<le> 1"
    proof (cases "s' = s \<and> dt' = dt")
      case True
      with None empty new show ?thesis by (simp add: update_one_upsert_def)
    next
      case False
      with None new inv show ?thesis
        by (auto simp: update_one_upsert_def attendance_unique_def)
    qed
  qed
next
  case (Some x)
  let ?key = "[(''student_id'', VStr s), (''date'', VStr dt)]"
  let ?sets = "[(''student_id'', VStr s), (''date'', VStr dt), (''status'', st), (''note'', n),
              (''updated_at'', u)]"
  from find_one_split [OF Some] obtain pre post where
    split: "c = pre @ x # post"
    and hit: "matches ?key x"
    and upd: "\<forall>s. update_one c ?key s = pre @ apply_set x s # post"
    by blast
  from hit have same: "\<And>s' dt'.
      matches [(''student_id'', VStr s'), (''date'', VStr dt')] (apply_set x ?sets) =
      matches [(''student_id'', VStr s'), (''date'', VStr dt')] x"
    by (auto simp: matches_key map_of_apply_set map_add_def)
  show ?thesis
    unfolding attendance_unique_def
  proof (intro allI)
    fix s' dt'
    from inv have "length (filter (matches [(''student_id'', VStr s'), (''date'', VStr dt')]) c) \<le> 1"
      by (simp add: attendance_unique_def)
    moreover have "length (filter (matches [(''student_id'', VStr s'), (''date'', VStr dt')])
        (pre @ apply_set x ?sets # post)) =
      length (filter (matches [(''student_id'', VStr s'), (''date'', VStr dt')]) (pre @ x # post))"
      by (simp add: same)
    ultimately
    show "length (filter (matches [(''student_id'', VStr s'), (''date'', VStr dt')])
        (update_one_upsert c ?key ?sets [(''created_at'', cr)] nid)) \<le> 1"
      using Some upd split by (simp add: update_one_upsert_def del: filter_append filter.simps)
  qed
qed

lemma mark_attendance_unique:
  assumes inv: "attendance_unique (d ''attendance'')"
  shows "\<exists>d'. snd (mark_attendance (Some d) req new_id now1 now2) = Some d' \<and>
     attendance_unique (d' ''attendance'')"
  using inv upsert_preserves_unique [where c = "d ''attendance''", OF inv]
  by (simp add: mark_attendance_def Let_def split: option.splits)

lemma mark_attendance_run:
  assumes sid: "ObjectId (student_id req) = Some sid"
    and student: "find_one (d ''student'') [(''_id'', VOid sid)] = Some s"
  shows "mark_attendance (Some d) req new_id now1 now2 =
     (Inr [(''message'', VStr ''Attendance recorded'')],
      Some (d(''attendance'' :=
        update_one_upsert (d ''attendance'')
          [(''student_id'', VStr (str_oid sid)), (''date'', VStr (isoformat (date req)))]
          [(''student_id'', VStr (str_oid sid)), (''date'', VStr (isoformat (date req))),
           (''status'', VStr (AttendanceRequest.status req)), (''note'', opt_str (note req)),
           (''updated_at'', VDatetime now1)]
          [(''created_at'', VDatetime now2)] new_id)))"
proof -
  from find_one_Some [OF student] have "s \<noteq> []" by (auto simp: matches_id)
  with sid student show ?thesis
    by (simp add: mark_attendance_def combine_min_def)
qed

text \<open>
  C3. \<open>mark_attendance\<close> keeps the attendance collection at one record at most for
  each pair of a student and a day, whatever the request and whether it succeeds or
  fails: so after any sequence of calls, from a collection that has the property (the
  empty one has), the collection still has it.
\<close>

theorem record_all_unique:
  assumes "attendance_unique (d ''attendance'')"
  shows "\<exists>d'. record_all (Some d) calls = Some d' \<and> attendance_unique (d' ''attendance'')"
  using assms
proof (induction calls arbitrary: d)
  case Nil
  then show ?case by simp
next
  case (Cons call calls)
  obtain req new_id now1 now2 where call: "call = (req, new_id, now1, now2)"
    by (cases call) auto
  from mark_attendance_unique [where d = d, OF Cons.prems] obtain d1 where
    step: "snd (mark_attendance (Some d) req new_id now1 now2) = Some d1"
    and inv1: "attendance_unique (d1 ''attendance'')" by blast
  from Cons.IH [where d = d1, OF inv1] call step show ?case by simp
qed

theorem record_all_unique_witness:
  "attendance_unique (college_db ''attendance'') \<and>
   attendance_unique
     (collection_of
        (record_all (Some college_db)
           [(AttendanceRequest_new sam_id (Date 2024 3 1) None None, OID fresh_id, morning, morning),
            (AttendanceRequest_new sam_id (Date 2024 3 1) (Some ''late'') (Some ''bus''),
               OID later_id, midday, midday),
            (AttendanceRequest_new jane_id (Date 2024 3 1) None None, OID later_id, evening, evening)])
        ''attendance'')"
proof -
  have start: "attendance_unique (college_db ''attendance'')"
    by (simp add: attendance_unique_def college_db_def empty_db_def)
  from record_all_unique [where d = college_db, OF start] obtain d' where
    "record_all (Some college_db)
           [(AttendanceRequest_new sam_id (Date 2024 3 1) None None, OID fresh_id, morning, morning),
            (AttendanceRequest_new sam_id (Date 2024 3 1) (Some ''late'') (Some ''bus''),
               OID later_id, midday, midday),
            (AttendanceRequest_new jane_id (Date 2024 3 1) None None, OID later_id, evening, evening)]
       = Some d'"
    and "attendance_unique (d' ''attendance'')"
    by blast
  with start show ?thesis by (simp add: collection_of_def)
qed



section \<open>Serialising a document\<close>

lemma map_of_fold_update:
  "map_of (fold (\<lambda>kv out. AList.update (fst (g kv)) (snd (g kv)) out) xs acc) =
     map_of acc ++ map_of (rev (map g xs))"
  by (induction xs arbitrary: acc)
    (simp_all add: update_conv' fun_eq_iff map_add_def split: option.splits)

lemma map_of_serialize_doc: "map_of (serialize_doc u) = map_of (rev (map serialize_item u))"
  by (simp add: serialize_doc_def map_of_fold_update)

lemma serialize_item_key:
  "fst (serialize_item kv) = (if fst kv = ''_id'' then ''id'' else fst kv)"
  by (cases kv) (simp split: val.splits)

lemma serialize_item_id: "fst kv = ''_id'' \<Longrightarrow> snd (serialize_item kv) = VStr (py_str (snd kv))"
  by (cases kv) simp

lemma serialized_keys_distinct:
  "distinct (map fst u) \<Longrightarrow> map_of u ''id'' = None \<Longrightarrow> distinct (map fst (map serialize_item u))"
proof (induction u)
  case Nil
  then show ?case by simp
next
  case (Cons kv u)
  from Cons.prems have no_id: "''id'' \<notin> fst ` set (kv # u)"
    by (metis map_of_eq_None_iff)
  from Cons.prems have "map_of u ''id'' = None"
    by (cases kv) (simp split: if_splits)
  with Cons have IH: "distinct (map fst (map serialize_item u))" by simp
  from Cons.prems have fresh: "fst kv \<notin> fst ` set u" by simp
  have "fst (serialize_item kv) \<notin> fst ` set (map serialize_item u)"
  proof
    assume "fst (serialize_item kv) \<in> fst ` set (map serialize_item u)"
    then obtain kv' where kv': "kv' \<in> set u" "fst (serialize_item kv') = fst (serialize_item kv)"
      by auto
    with no_id have "fst kv' = fst kv"
      by (force simp: serialize_item_key split: if_splits)
    with kv' fresh show False by (metis imageI)
  qed
  with IH show ?case by (simp add: image_image)
qed

lemma map_of_rev_distinct: "distinct (map fst xs) \<Longrightarrow> map_of (rev xs) = map_of xs"
proof (induction xs)
  case Nil
  then show ?case by simp
next
  case (Cons x xs)
  then have "map_of xs (fst x) = None"
    by (simp add: map_of_eq_None_iff)
  with Cons show ?case
    by (cases x) (auto simp: fun_eq_iff map_add_def split: option.splits)
qed

lemma map_of_serialized_id:
  "map_of u ''id'' = None \<Longrightarrow>
   map_of (map serialize_item u) ''id'' = map_option (\<lambda>v. VStr (py_str v)) (map_of u ''_id'')"
proof (induction u)
  case Nil
  then show ?case by simp
next
  case (Cons kv u)
  from Cons.prems have "fst kv \<noteq> ''id''" and "map_of u ''id'' = None"
    by (auto split: if_splits)
  with Cons.IH show ?case
    by (simp add: serialize_item_key serialize_item_id del: serialize_item.simps)
qed

lemma map_of_serialized_other:
  "k \<noteq> ''id'' \<Longrightarrow> k \<noteq> ''_id'' \<Longrightarrow>
   map_of (map serialize_item u) k = map_option (\<lambda>v. snd (serialize_item (k, v))) (map_of u k)"
proof (induction u)
  case Nil
  then show ?case by simp
next
  case (Cons kv u)
  then show ?case
    by (cases kv) (simp add: serialize_item_key del: serialize_item.simps)
qed

lemma map_of_serialize_doc_distinct:
  assumes "distinct (map fst u)" and "map_of u ''id'' = None"
  shows "map_of (serialize_doc u) = map_of (map serialize_item u)"
  using serialized_keys_distinct [OF assms]
  by (simp only: map_of_serialize_doc map_of_rev_distinct)

section \<open>Logging in\<close>

lemma login_found:
  assumes found: "find_one (d ''adminuser'')
      [(''email'', VStr e), (''password'', VStr p), (''is_active'', VBool True)] = Some u"
    and wf: "stored_doc u" and oid: "map_of u ''_id'' = Some (VOid i)"
  shows "login (Some d) \<lparr>LoginRequest.email = e, password = p\<rparr> =
     Inr \<lparr>message = ''Login successful'',
          user = [(''id'', VStr (str_oid i)),
                  (''name'', case map_of u ''name'' of None \<Rightarrow> VNull
                             | Some v \<Rightarrow> snd (serialize_item (''name'', v))),
                  (''email'', VStr e),
                  (''role'', case map_of u ''role'' of None \<Rightarrow> VStr ''admin''
                             | Some v \<Rightarrow> snd (serialize_item (''role'', v)))]\<rparr>"
proof -
  from wf have keys: "distinct (map fst u)" "map_of u ''id'' = None"
    by (simp_all add: stored_doc_def)
  from oid have nonempty: "u \<noteq> []" by auto
  from find_one_Some [OF found] have em: "map_of u ''email'' = Some (VStr e)"
    by (simp add: matches_credentials)
  have ser: "map_of (serialize_doc u) = map_of (map serialize_item u)"
    by (rule map_of_serialize_doc_distinct [OF keys])
  have id: "map_of (serialize_doc u) ''id'' = Some (VStr (str_oid i))"
    by (simp add: ser map_of_serialized_id [OF keys(2)] oid)
  have name: "dict_get (serialize_doc u) ''name'' VNull =
      (case map_of u ''name'' of None \<Rightarrow> VNull | Some v \<Rightarrow> snd (serialize_item (''name'', v)))"
    by (simp add: dict_get_def ser map_of_serialized_other split: option.splits)
  have role: "dict_get (serialize_doc u) ''role'' (VStr ''admin'') =
      (case map_of u ''role'' of None \<Rightarrow> VStr ''admin''
       | Some v \<Rightarrow> snd (serialize_item (''role'', v)))"
    by (simp add: dict_get_def ser map_of_serialized_other split: option.splits)
  have email: "dict_get (serialize_doc u) ''email'' VNull = VStr e"
    by (simp add: dict_get_def ser map_of_serialized_other em)
  from found nonempty id name role email show ?thesis
    by (simp add: login_def Let_def del: serialize_item.simps)
qed

lemma login_validated:
  assumes wf: "\<forall>u\<in>set (d ''adminuser''). stored_doc u"
  shows "((\<exists>u\<in>set (d ''adminuser''). map_of u ''email'' = Some (VStr e) \<and>
            map_of u ''password'' = Some (VStr p) \<and> map_of u ''is_active'' = Some (VBool True)) \<longrightarrow>
          (\<exists>u i. u \<in> set (d ''adminuser'') \<and> map_of u ''_id'' = Some (VOid i) \<and>
            map_of u ''email'' = Some (VStr e) \<and> map_of u ''password'' = Some (VStr p) \<and>
            map_of u ''is_active'' = Some (VBool True) \<and>
            login (Some d) \<lparr>LoginRequest.email = e, password = p\<rparr> =
              Inr \<lparr>message = ''Login successful'',
                   user = [(''id'', VStr (str_oid i)),
                           (''name'', case map_of u ''name'' of None \<Rightarrow> VNull
                                      | Some v \<Rightarrow> snd (serialize_item (''name'', v))),
                           (''email'', VStr e),
                           (''role'', case map_of u ''role'' of None \<Rightarrow> VStr ''admin''
                                      | Some v \<Rightarrow> snd (serialize_item (''role'', v)))]\<rparr>)) \<and>
         (\<not> (\<exists>u\<in>set (d ''adminuser''). map_of u ''email'' = Some (VStr e) \<and>
            map_of u ''password'' = Some (VStr p) \<and> map_of u ''is_active'' = Some (VBool True)) \<longrightarrow>
          login (Some d) \<lparr>LoginRequest.email = e, password = p\<rparr> =
            Inl (HTTPException 401 ''Invalid credentials''))"
proof (intro conjI impI)
  let ?creds = "[(''email'', VStr e), (''password'', VStr p), (''is_active'', VBool True)]"
  assume "\<exists>u\<in>set (d ''adminuser''). map_of u ''email'' = Some (VStr e) \<and>
            map_of u ''password'' = Some (VStr p) \<and> map_of u ''is_active'' = Some (VBool True)"
  then have "find_one (d ''adminuser'') ?creds \<noteq> None"
    unfolding find_one_None matches_credentials by blast
  then obtain u where found: "find_one (d ''adminuser'') ?creds = Some u" by blast
  from find_one_Some [OF found] have u: "u \<in> set (d ''adminuser'')"
    and m: "map_of u ''email'' = Some (VStr e)" "map_of u ''password'' = Some (VStr p)"
      "map_of u ''is_active'' = Some (VBool True)"
    by (simp_all add: matches_credentials)
  from wf u have st: "stored_doc u" by blast
  then obtain i where oid: "map_of u ''_id'' = Some (VOid i)"
    by (auto simp: stored_doc_def split: option.splits val.splits)
  from login_found [where d = d, OF found st oid] u oid m
  show "\<exists>u i. u \<in> set (d ''adminuser'') \<and> map_of u ''_id'' = Some (VOid i) \<and>
            map_of u ''email'' = Some (VStr e) \<and> map_of u ''password'' = Some (VStr p) \<and>
            map_of u ''is_active'' = Some (VBool True) \<and>
            login (Some d) \<lparr>LoginRequest.email = e, password = p\<rparr> =
              Inr \<lparr>message = ''Login successful'',
                   user = [(''id'', VStr (str_oid i)),
                           (''name'', case map_of u ''name'' of None \<Rightarrow> VNull
                                      | Some v \<Rightarrow> snd (serialize_item (''name'', v))),
                           (''email'', VStr e),
                           (''role'', case map_of u ''role'' of None \<Rightarrow> VStr ''admin''
                                      | Some v \<Rightarrow> snd (serialize_item (''role'', v)))]\<rparr>"
    by blast
next
  let ?creds = "[(''email'', VStr e), (''password'', VStr p), (''is_active'', VBool True)]"
  assume "\<not> (\<exists>u\<in>set (d ''adminuser''). map_of u ''email'' = Some (VStr e) \<and>
            map_of u ''password'' = Some (VStr p) \<and> map_of u ''is_active'' = Some (VBool True))"
  then have "find_one (d ''adminuser'') ?creds = None"
    unfolding find_one_None matches_credentials by blast
  then show "login (Some d) \<lparr>LoginRequest.email = e, password = p\<rparr> =
            Inl (HTTPException 401 ''Invalid credentials'')"
    by (simp add: login_def)
qed

text \<open>
  C7 as stated fails. The email of a login request is validated and normalised before
  \<open>login\<close> compares it: the request with the email admin@COLLEGE.EDU logs in although
  the only stored admin user has the email admin@college.edu, which is not the input;
  and a request whose email is no address is refused as invalid, which is not the
  failure of a wrong password.
\<close>

theorem login_input_counterexample:
  "login_route lower_domain (Some college_db) ''admin@COLLEGE.EDU'' ''admin123'' =
     Inr \<lparr>message = ''Login successful'',
          user = [(''id'', VStr admin_id), (''name'', VStr ''Default Admin''),
                  (''email'', VStr ''admin@college.edu''), (''role'', VStr ''admin'')]\<rparr> \<and>
   college_db ''adminuser'' = [default_admin] \<and>
   map_of default_admin ''email'' = Some (VStr ''admin@college.edu'') \<and>
   ''admin@college.edu'' \<noteq> ''admin@COLLEGE.EDU'' \<and>
   login_route lower_domain (Some college_db) ''not-an-email'' ''admin123'' =
     Inl RequestValidationError \<and>
   login_route lower_domain (Some college_db) ''admin@college.edu'' ''admin124'' =
     Inl (HTTPException 401 ''Invalid credentials'') \<and>
   RequestValidationError \<noteq> HTTPException 401 ''Invalid credentials''"
proof -
  have wf: "stored_doc default_admin"
    by (simp add: default_admin_def stored_doc_def)
  have users: "college_db ''adminuser'' = [default_admin]"
    by (simp add: college_db_def)
  have found: "find_one (college_db ''adminuser'')
      [(''email'', VStr ''admin@college.edu''), (''password'', VStr ''admin123''),
       (''is_active'', VBool True)] = Some default_admin"
    by (simp add: users matches_credentials) (simp add: default_admin_def)
  have oid: "map_of default_admin ''_id'' = Some (VOid (OID admin_id))"
    by (simp add: default_admin_def)
  have good: "login (Some college_db)
      \<lparr>LoginRequest.email = ''admin@college.edu'', password = ''admin123''\<rparr> =
     Inr \<lparr>message = ''Login successful'',
          user = [(''id'', VStr admin_id), (''name'', VStr ''Default Admin''),
                  (''email'', VStr ''admin@college.edu''), (''role'', VStr ''admin'')]\<rparr>"
    using login_found [where d = college_db, OF found wf oid]
    by (simp add: default_admin_def)
  have bad: "login (Some college_db)
      \<lparr>LoginRequest.email = ''admin@college.edu'', password = ''admin124''\<rparr> =
     Inl (HTTPException 401 ''Invalid credentials'')"
    by (simp add: login_def users matches_credentials) (simp add: default_admin_def)
  have v: "lower_domain ''admin@COLLEGE.EDU'' = Some ''admin@college.edu''"
    "lower_domain ''admin@college.edu'' = Some ''admin@college.edu''"
    "lower_domain ''not-an-email'' = None"
    by (simp_all add: lower_domain_def ascii_lower_def)
  from good bad v users show ?thesis
    by (simp add: login_route_def LoginRequest_new_def default_admin_def)
qed

text \<open>
  C7, amended. With the store configured and holding stored documents, a login request
  whose email the validation refuses is answered as invalid before any lookup. A
  request whose email validates succeeds exactly when some admin user document has the
  validated, normalised email, the request's password and \<open>is_active\<close> true; it then
  returns the identifier, name, email and role of such a user (the role "admin" when
  the document has none). For every other request, whether the email, the password or
  the active flag is what fails, the result is the one value
  \<open>HTTPException 401 "Invalid credentials"\<close>.
\<close>

theorem login_route_exact:
  assumes wf: "\<forall>u\<in>set (d ''adminuser''). stored_doc u"
  shows "(validate_email raw = None \<longrightarrow>
            login_route validate_email (Some d) raw p = Inl RequestValidationError) \<and>
         (validate_email raw = Some e \<longrightarrow>
            ((\<exists>u\<in>set (d ''adminuser''). map_of u ''email'' = Some (VStr e) \<and>
                map_of u ''password'' = Some (VStr p) \<and>
                map_of u ''is_active'' = Some (VBool True)) \<longrightarrow>
             (\<exists>u i. u \<in> set (d ''adminuser'') \<and> map_of u ''_id'' = Some (VOid i) \<and>
                map_of u ''email'' = Some (VStr e) \<and> map_of u ''password'' = Some (VStr p) \<and>
                map_of u ''is_active'' = Some (VBool True) \<and>
                login_route validate_email (Some d) raw p =
                  Inr \<lparr>message = ''Login successful'',
                       user = [(''id'', VStr (str_oid i)),
                               (''name'', case map_of u ''name'' of None \<Rightarrow> VNull
                                          | Some v \<Rightarrow> snd (serialize_item (''name'', v))),
                               (''email'', VStr e),
                               (''role'', case map_of u ''role'' of None \<Rightarrow> VStr ''admin''
                                          | Some v \<Rightarrow> snd (serialize_item (''role'', v)))]\<rparr>)) \<and>
            (\<not> (\<exists>u\<in>set (d ''adminuser''). map_of u ''email'' = Some (VStr e) \<and>
                map_of u ''password'' = Some (VStr p) \<and>
                map_of u ''is_active'' = Some (VBool True)) \<longrightarrow>
             login_route validate_email (Some d) raw p =
               Inl (HTTPException 401 ''Invalid credentials'')))"
proof (intro conjI)
  show "validate_email raw = None \<longrightarrow>
      login_route validate_email (Some d) raw p = Inl RequestValidationError"
    by (simp add: login_route_def LoginRequest_new_def)
next
  show "validate_email raw = Some e \<longrightarrow>
            ((\<exists>u\<in>set (d ''adminuser''). map_of u ''email'' = Some (VStr e) \<and>
                map_of u ''password'' = Some (VStr p) \<and>
                map_of u ''is_active'' = Some (VBool True)) \<longrightarrow>
             (\<exists>u i. u \<in> set (d ''adminuser'') \<and> map_of u ''_id'' = Some (VOid i) \<and>
                map_of u ''email'' = Some (VStr e) \<and> map_of u ''password'' = Some (VStr p) \<and>
                map_of u ''is_active'' = Some (VBool True) \<and>
                login_route validate_email (Some d) raw p =
                  Inr \<lparr>message = ''Login successful'',
                       user = [(''id'', VStr (str_oid i)),
                               (''name'', case map_of u ''name'' of None \<Rightarrow> VNull
                                          | Some v \<Rightarrow> snd (serialize_item (''name'', v))),
                               (''email'', VStr e),
                               (''role'', case map_of u ''role'' of None \<Rightarrow> VStr ''admin''
                                          | Some v \<Rightarrow> snd (serialize_item (''role'', v)))]\<rparr>)) \<and>
            (\<not> (\<exists>u\<in>set (d ''adminuser''). map_of u ''email'' = Some (VStr e) \<and>
                map_of u ''password'' = Some (VStr p) \<and>
                map_of u ''is_active'' = Some (VBool True)) \<longrightarrow>
             login_route validate_email (Some d) raw p =
               Inl (HTTPException 401 ''Invalid credentials''))"
  proof
    assume "validate_email raw = Some e"
    then have route: "login_route validate_email (Some d) raw p =
        login (Some d) \<lparr>LoginRequest.email = e, password = p\<rparr>"
      by (simp add: login_route_def LoginRequest_new_def)
    show "((\<exists>u\<in>set (d ''adminuser''). map_of u ''email'' = Some (VStr e) \<and>
                map_of u ''password'' = Some (VStr p) \<and>
                map_of u ''is_active'' = Some (VBool True)) \<longrightarrow>
             (\<exists>u i. u \<in> set (d ''adminuser'') \<and> map_of u ''_id'' = Some (VOid i) \<and>
                map_of u ''email'' = Some (VStr e) \<and> map_of u ''password'' = Some (VStr p) \<and>
                map_of u ''is_active'' = Some (VBool True) \<and>
                login_route validate_email (Some d) raw p =
                  Inr \<lparr>message = ''Login successful'',
                       user = [(''id'', VStr (str_oid i)),
                               (''name'', case map_of u ''name'' of None \<Rightarrow> VNull
                                          | Some v \<Rightarrow> snd (serialize_item (''name'', v))),
                               (''email'', VStr e),
                               (''role'', case map_of u ''role'' of None \<Rightarrow> VStr ''admin''
                                          | Some v \<Rightarrow> snd (serialize_item (''role'', v)))]\<rparr>)) \<and>
            (\<not> (\<exists>u\<in>set (d ''adminuser''). map_of u ''email'' = Some (VStr e) \<and>
                map_of u ''password'' = Some (VStr p) \<and>
                map_of u ''is_active'' = Some (VBool True)) \<longrightarrow>
             login_route validate_email (Some d) raw p =
               Inl (HTTPException 401 ''Invalid credentials''))"
      unfolding route by (rule login_validated [where d = d, OF wf])
  qed
qed

theorem login_route_exact_witness:
  "list_all stored_doc (college_db ''adminuser'') \<and>
   lower_domain ''admin@COLLEGE.EDU'' = Some ''admin@college.edu'' \<and>
   login_route lower_domain (Some college_db) ''admin@COLLEGE.EDU'' ''admin123'' =
     Inr \<lparr>message = ''Login successful'',
          user = [(''id'', VStr admin_id), (''name'', VStr ''Default Admin''),
                  (''email'', VStr ''admin@college.edu''), (''role'', VStr ''admin'')]\<rparr> \<and>
   login_route lower_domain (Some college_db) ''admin@college.edu'' ''admin124'' =
     Inl (HTTPException 401 ''Invalid credentials'') \<and>
   lower_domain ''staff@college.edu'' = Some ''staff@college.edu'' \<and>
   login_route lower_domain (Some college_db) ''staff@college.edu'' ''admin123'' =
     Inl (HTTPException 401 ''Invalid credentials'') \<and>
   lower_domain ''not-an-email'' = None \<and>
   login_route lower_domain (Some college_db) ''not-an-email'' ''admin123'' =
     Inl RequestValidationError"
proof -
  have wf: "\<forall>u\<in>set (college_db ''adminuser''). stored_doc u"
    by (simp add: college_db_def default_admin_def stored_doc_def)
  have users: "college_db ''adminuser'' = [default_admin]"
    by (simp add: college_db_def)
  have v: "lower_domain ''admin@COLLEGE.EDU'' = Some ''admin@college.edu''"
    "lower_domain ''admin@college.edu'' = Some ''admin@college.edu''"
    "lower_domain ''staff@college.edu'' = Some ''staff@college.edu''"
    "lower_domain ''not-an-email'' = None"
    by (simp_all add: lower_domain_def ascii_lower_def)
  note r = login_route_exact [where d = college_db and validate_email = lower_domain, OF wf]
  from r [where raw = "''admin@COLLEGE.EDU''" and e = "''admin@college.edu''"
      and p = "''admin123''", THEN conjunct2, THEN mp, OF v(1), THEN conjunct1]
  have good: "login_route lower_domain (Some college_db) ''admin@COLLEGE.EDU'' ''admin123'' =
     Inr \<lparr>message = ''Login successful'',
          user = [(''id'', VStr admin_id), (''name'', VStr ''Default Admin''),
                  (''email'', VStr ''admin@college.edu''), (''role'', VStr ''admin'')]\<rparr>"
    by (simp add: users default_admin_def)
  from r [where raw = "''admin@college.edu''" and e = "''admin@college.edu''"
      and p = "''admin124''", THEN conjunct2, THEN mp, OF v(2), THEN conjunct2]
  have wrong_password:
    "login_route lower_domain (Some college_db) ''admin@college.edu'' ''admin124'' =
     Inl (HTTPException 401 ''Invalid credentials'')"
    by (simp add: users default_admin_def)
  from r [where raw = "''staff@college.edu''" and e = "''staff@college.edu''"
      and p = "''admin123''", THEN conjunct2, THEN mp, OF v(3), THEN conjunct2]
  have wrong_email:
    "login_route lower_domain (Some college_db) ''staff@college.edu'' ''admin123'' =
     Inl (HTTPException 401 ''Invalid credentials'')"
    by (simp add: users default_admin_def)
  from r [where raw = "''not-an-email''" and p = "''admin123''", THEN conjunct1, THEN mp, OF v(4)]
  have refused: "login_route lower_domain (Some college_db) ''not-an-email'' ''admin123'' =
     Inl RequestValidationError" .
  from wf v good wrong_password wrong_email refused show ?thesis
    by (simp add: list_all_iff)
qed

section \<open>Submitting an admission\<close>

text \<open>
  C4 does not hold of the code. The schema lets the body of a submission carry a status,
  "pending" being the default only, and \<open>submit_admission\<close> hands the validated model
  to \<open>create_document\<close> as it is: a submission with the status "accepted" reaches the
  store's helper as accepted, and nothing sets it to "pending".
\<close>

theorem submit_admission_forwards_status:
  "Admission_new lower_domain ''Jane Doe'' ''jane@example.com'' ''555-0100'' ''1 Main St''
     ''Engineering'' (Date 2005 6 15) None (Some Accepted) = Some (jane_input (Some Accepted)) \<and>
   Admission.status (jane_input (Some Accepted)) = Accepted \<and>
   submit_admission (recording_create fresh_id) (jane_input (Some Accepted)) [] =
     (Inr [(''message'', VStr ''Application submitted''), (''id'', VStr fresh_id)],
      [(''admission'', jane_input (Some Accepted))]) \<and>
   Admission_new lower_domain ''Jane Doe'' ''jane@example.com'' ''555-0100'' ''1 Main St''
     ''Engineering'' (Date 2005 6 15) None None = Some (jane_input None) \<and>
   Admission.status (jane_input None) = Pending"
  by (simp add: Admission_new_def lower_domain_def ascii_lower_def jane_input_def
      submit_admission_def recording_create_def)

section \<open>Failures of the store\<close>




section \<open>Any status is recorded\<close>

text \<open>
  C9 does not hold of the code: the request model of \<open>mark_attendance\<close> takes any
  string as a status. The status "holiday" for an existing student is accepted and
  stored.
\<close>

theorem mark_attendance_stores_any_status:
  "fst (mark_attendance (Some college_db)
          (AttendanceRequest_new sam_id (Date 2024 3 1) (Some ''holiday'') None)
          (OID fresh_id) midday midday) =
     Inr [(''message'', VStr ''Attendance recorded'')] \<and>
   collection_of
     (snd (mark_attendance (Some college_db)
             (AttendanceRequest_new sam_id (Date 2024 3 1) (Some ''holiday'') None)
             (OID fresh_id) midday midday))
     ''attendance'' =
     [[(''_id'', VOid (OID fresh_id)),
       (''student_id'', VStr sam_id),
       (''date'', VStr ''2024-03-01''),
       (''status'', VStr ''holiday''),
       (''note'', VNull),
       (''updated_at'', VDatetime midday),
       (''created_at'', VDatetime midday)]]"
proof -
  have "mark_attendance (Some college_db)
          (AttendanceRequest_new sam_id (Date 2024 3 1) (Some ''holiday'') None)
          (OID fresh_id) midday midday =
     (Inr [(''message'', VStr ''Attendance recorded'')],
      Some (college_db(''attendance'' :=
        update_one_upsert (college_db ''attendance'')
          [(''student_id'', VStr (str_oid (OID sam_id))),
           (''date'', VStr (isoformat (Date 2024 3 1)))]
          [(''student_id'', VStr (str_oid (OID sam_id))),
           (''date'', VStr (isoformat (Date 2024 3 1))),
           (''status'', VStr ''holiday''), (''note'', VNull),
           (''updated_at'', VDatetime midday)]
          [(''created_at'', VDatetime midday)] (OID fresh_id))))"
    using mark_attendance_run [where d = college_db and sid = "OID sam_id" and s = sam_student
        and req = "AttendanceRequest_new sam_id (Date 2024 3 1) (Some ''holiday'') None"]
      ObjectId_sam find_sam
    by (simp add: AttendanceRequest_new_def)
  moreover have "college_db ''attendance'' = []"
    by (simp add: college_db_def empty_db_def)
  ultimately show ?thesis
    by (simp add: collection_of_def update_one_upsert_def apply_set_def zfill4_def zfill2_def
        digit_def)
qed

section \<open>Empty filter parameters\<close>

text \<open>
  C10. An empty string as a filter parameter is the same as no parameter:
  \<open>list_admissions\<close> and \<open>get_attendance\<close> hand the helper the same filter in both
  cases, with no entry for that field (the empty filter when no other parameter is
  given), and on a configured store whose helper retrieves by filter they return the
  whole collection, serialised.
\<close>

theorem empty_filter_is_absent:
  "list_admissions get (Some '''') = list_admissions get None \<and>
   get_attendance get (Some '''') on_date = get_attendance get None on_date \<and>
   get_attendance get sid (Some '''') = get_attendance get sid None \<and>
   list_admissions get (Some '''') =
     map_sum (HTTPException 503) (map serialize_doc) (get ''admission'' (Some [])) \<and>
   get_attendance get (Some '''') (Some '''') =
     map_sum (HTTPException 503) (map serialize_doc) (get ''attendance'' (Some [])) \<and>
   list_admissions (get_documents (Some d)) (Some '''') = Inr (map serialize_doc (d ''admission'')) \<and>
   get_attendance (get_documents (Some d)) (Some '''') (Some '''') =
     Inr (map serialize_doc (d ''attendance'')) \<and>
   get_attendance (get_documents (Some d)) (Some '''') None =
     Inr (map serialize_doc (d ''attendance'')) \<and>
   get_attendance (get_documents (Some d)) None (Some '''') =
     Inr (map serialize_doc (d ''attendance''))"
  by (simp add: list_admissions_def get_attendance_def get_documents_def find_docs_def
      matches_def Let_def split: sum.splits)

end
